theory Spec2Isabelle
  imports Main
begin

section \<open>Text primitives\<close>

text \<open>
  Strings of the scraper are modelled as \<^typ>\<open>string\<close>, each character a code point below
  256. The backslash cannot be written inside a string literal, so it gets a name.
\<close>

abbreviation bsl :: char where
  "bsl \<equiv> CHR 0x5C"

abbreviation newline :: char where
  "newline \<equiv> CHR 0x0A"

text \<open>
  The characters that \<^verbatim>\<open>str.isspace\<close>, \<^verbatim>\<open>str.strip\<close> and the pattern \<^verbatim>\<open>\s\<close> accept:
  tab to carriage return, the four separators, the space, the next-line character and the
  no-break space.
\<close>

definition is_space :: "char \<Rightarrow> bool" where
  "is_space c = (c \<in> set [CHR 0x09, CHR 0x0A, CHR 0x0B, CHR 0x0C, CHR 0x0D,
                           CHR 0x1C, CHR 0x1D, CHR 0x1E, CHR 0x1F, CHR 0x20,
                           CHR 0x85, CHR 0xA0])"

text \<open>The class \<^verbatim>\<open>[a-zA-Z]\<close>.\<close>

definition is_alpha :: "char \<Rightarrow> bool" where
  "is_alpha c = (c \<in> set ''abcdefghijklmnopqrstuvwxyzABCDEFGHIJKLMNOPQRSTUVWXYZ'')"

text \<open>The class \<^verbatim>\<open>\d\<close>.\<close>

definition is_digit :: "char \<Rightarrow> bool" where
  "is_digit c = (c \<in> set ''0123456789'')"

text \<open>\<^verbatim>\<open>str.strip()\<close>: whitespace removed at both ends.\<close>

definition strip :: "string \<Rightarrow> string" where
  "strip s = rev (dropWhile is_space (rev (dropWhile is_space s)))"

text \<open>
  \<^verbatim>\<open>str.lower()\<close>: the letters A to Z, and the capital letters from 0xC0 to 0xDE (the
  multiplication sign 0xD7 is no letter), each go to the letter 0x20 above.
\<close>

definition upper_letters :: string where
  "upper_letters =
     ''ABCDEFGHIJKLMNOPQRSTUVWXYZ'' @
     [CHR 0xC0, CHR 0xC1, CHR 0xC2, CHR 0xC3, CHR 0xC4, CHR 0xC5, CHR 0xC6, CHR 0xC7,
      CHR 0xC8, CHR 0xC9, CHR 0xCA, CHR 0xCB, CHR 0xCC, CHR 0xCD, CHR 0xCE, CHR 0xCF,
      CHR 0xD0, CHR 0xD1, CHR 0xD2, CHR 0xD3, CHR 0xD4, CHR 0xD5, CHR 0xD6, CHR 0xD8,
      CHR 0xD9, CHR 0xDA, CHR 0xDB, CHR 0xDC, CHR 0xDD, CHR 0xDE]"

definition lower_letters :: string where
  "lower_letters =
     ''abcdefghijklmnopqrstuvwxyz'' @
     [CHR 0xE0, CHR 0xE1, CHR 0xE2, CHR 0xE3, CHR 0xE4, CHR 0xE5, CHR 0xE6, CHR 0xE7,
      CHR 0xE8, CHR 0xE9, CHR 0xEA, CHR 0xEB, CHR 0xEC, CHR 0xED, CHR 0xEE, CHR 0xEF,
      CHR 0xF0, CHR 0xF1, CHR 0xF2, CHR 0xF3, CHR 0xF4, CHR 0xF5, CHR 0xF6, CHR 0xF8,
      CHR 0xF9, CHR 0xFA, CHR 0xFB, CHR 0xFC, CHR 0xFD, CHR 0xFE]"

definition lower_char :: "char \<Rightarrow> char" where
  "lower_char c =
     (case map_of (zip upper_letters lower_letters) c of
        Some d \<Rightarrow> d
      | None \<Rightarrow> c)"

definition lower :: "string \<Rightarrow> string" where
  "lower s = map lower_char s"

text \<open>\<^verbatim>\<open>s.startswith(p)\<close>.\<close>

fun startswith :: "string \<Rightarrow> string \<Rightarrow> bool" where
  "startswith s [] = True"
| "startswith [] (p # ps) = False"
| "startswith (c # cs) (p # ps) = (c = p \<and> startswith cs ps)"

text \<open>\<^verbatim>\<open>p in s\<close>: \<open>p\<close> occurs in \<open>s\<close> as a contiguous substring.\<close>

fun contains :: "string \<Rightarrow> string \<Rightarrow> bool" where
  "contains [] p = (p = [])"
| "contains (c # cs) p = (startswith (c # cs) p \<or> contains cs p)"

text \<open>\<^verbatim>\<open>sep.join(parts)\<close>.\<close>

fun join :: "string \<Rightarrow> string list \<Rightarrow> string" where
  "join sep [] = []"
| "join sep [x] = x"
| "join sep (x # y # ys) = x @ sep @ join sep (y # ys)"

text \<open>\<^verbatim>\<open>str(i)\<close> for a non-negative integer, and \<^verbatim>\<open>int(s)\<close> on a string of digits.\<close>

definition digit_char :: "nat \<Rightarrow> char" where
  "digit_char d = ''0123456789'' ! d"

fun str_of_nat :: "nat \<Rightarrow> string" where
  "str_of_nat n = (if n < 10 then [digit_char n] else str_of_nat (n div 10) @ [digit_char (n mod 10)])"

definition digit_val :: "char \<Rightarrow> nat" where
  "digit_val c = (case map_of (zip ''0123456789'' [0, 1, 2, 3, 4, 5, 6, 7, 8, 9]) c of
                    Some d \<Rightarrow> d
                  | None \<Rightarrow> 0)"

definition int_of_digits :: "string \<Rightarrow> nat" where
  "int_of_digits s = foldl (\<lambda>acc c. 10 * acc + digit_val c) 0 s"

section \<open>Regular expressions of the scraper\<close>

text \<open>
  The patterns of \<^verbatim>\<open>scraper.py\<close> are built from a handful of constructs. Each construct
  is a backtracking matcher in continuation-passing style: it consumes a prefix of the input
  and hands the rest to the continuation \<open>k\<close>; when \<open>k\<close> fails the construct tries its next
  alternative, in the order of Python's \<^verbatim>\<open>re\<close> engine.
\<close>

text \<open>A literal string.\<close>

fun lit :: "string \<Rightarrow> (string \<Rightarrow> 'a option) \<Rightarrow> string \<Rightarrow> 'a option" where
  "lit [] k s = k s"
| "lit (p # ps) k [] = None"
| "lit (p # ps) k (c # cs) = (if p = c then lit ps k cs else None)"

text \<open>A literal string under \<^verbatim>\<open>re.IGNORECASE\<close>.\<close>

fun lit_nocase :: "string \<Rightarrow> (string \<Rightarrow> 'a option) \<Rightarrow> string \<Rightarrow> 'a option" where
  "lit_nocase [] k s = k s"
| "lit_nocase (p # ps) k [] = None"
| "lit_nocase (p # ps) k (c # cs) =
     (if lower_char p = lower_char c then lit_nocase ps k cs else None)"

text \<open>A captured single character of a class, such as \<^verbatim>\<open>([A-E])\<close>.\<close>

fun one_grp :: "(char \<Rightarrow> bool) \<Rightarrow> (string \<Rightarrow> string \<Rightarrow> 'a option) \<Rightarrow> string \<Rightarrow> 'a option" where
  "one_grp P k [] = None"
| "one_grp P k (c # cs) = (if P c then k [c] cs else None)"

text \<open>Greedy \<^verbatim>\<open>X*\<close>: as many as possible first, fewer on failure of the rest.\<close>

fun star :: "(char \<Rightarrow> bool) \<Rightarrow> (string \<Rightarrow> 'a option) \<Rightarrow> string \<Rightarrow> 'a option" where
  "star P k [] = k []"
| "star P k (c # cs) =
     (if P c then (case star P k cs of Some r \<Rightarrow> Some r | None \<Rightarrow> k (c # cs))
      else k (c # cs))"

text \<open>Greedy \<^verbatim>\<open>X+\<close>.\<close>

fun plus :: "(char \<Rightarrow> bool) \<Rightarrow> (string \<Rightarrow> 'a option) \<Rightarrow> string \<Rightarrow> 'a option" where
  "plus P k [] = None"
| "plus P k (c # cs) = (if P c then star P k cs else None)"

text \<open>Greedy captured \<^verbatim>\<open>(X+)\<close>; \<open>acc\<close> is the text captured so far.\<close>

fun star_grp :: "(char \<Rightarrow> bool) \<Rightarrow> (string \<Rightarrow> string \<Rightarrow> 'a option) \<Rightarrow> string \<Rightarrow> string \<Rightarrow> 'a option" where
  "star_grp P k acc [] = k acc []"
| "star_grp P k acc (c # cs) =
     (if P c then (case star_grp P k (acc @ [c]) cs of Some r \<Rightarrow> Some r | None \<Rightarrow> k acc (c # cs))
      else k acc (c # cs))"

fun plus_grp :: "(char \<Rightarrow> bool) \<Rightarrow> (string \<Rightarrow> string \<Rightarrow> 'a option) \<Rightarrow> string \<Rightarrow> 'a option" where
  "plus_grp P k [] = None"
| "plus_grp P k (c # cs) = (if P c then star_grp P k [c] cs else None)"

text \<open>Lazy captured \<^verbatim>\<open>(X+?)\<close>: one character first, one more on failure of the rest.\<close>

fun lazy_plus_grp :: "(char \<Rightarrow> bool) \<Rightarrow> (string \<Rightarrow> string \<Rightarrow> 'a option) \<Rightarrow> string \<Rightarrow> string \<Rightarrow> 'a option" where
  "lazy_plus_grp P k acc [] = None"
| "lazy_plus_grp P k acc (c # cs) =
     (if P c then (case k (acc @ [c]) cs of Some r \<Rightarrow> Some r | None \<Rightarrow> lazy_plus_grp P k (acc @ [c]) cs)
      else None)"

text \<open>Optional single character \<^verbatim>\<open>c?\<close>.\<close>

fun opt :: "char \<Rightarrow> (string \<Rightarrow> 'a option) \<Rightarrow> string \<Rightarrow> 'a option" where
  "opt x k [] = k []"
| "opt x k (c # cs) =
     (if c = x then (case k cs of Some r \<Rightarrow> Some r | None \<Rightarrow> k (c # cs)) else k (c # cs))"

text \<open>
  The anchor \<^verbatim>\<open>$\<close> without \<^verbatim>\<open>re.MULTILINE\<close>: the end of the string, or just before a
  newline that ends the string.
\<close>

definition at_end :: "string \<Rightarrow> bool" where
  "at_end s = (s = [] \<or> s = [newline])"

text \<open>
  \<^verbatim>\<open>re.findall\<close>, \<^verbatim>\<open>re.search\<close> and \<^verbatim>\<open>re.sub\<close> over a matcher \<open>m\<close> that is tried at
  one position and returns what the match yields together with the unconsumed rest. None of
  the scraper's patterns looks behind, so a position is the suffix that starts there. After
  an empty match the scan advances by one character.
\<close>

function findall :: "(string \<Rightarrow> ('a \<times> string) option) \<Rightarrow> string \<Rightarrow> 'a list" where
  "findall m s =
     (case m s of
        Some (g, r) \<Rightarrow>
          g # (if length r < length s then findall m r
               else (case s of [] \<Rightarrow> [] | c # t \<Rightarrow> findall m t))
      | None \<Rightarrow> (case s of [] \<Rightarrow> [] | c # t \<Rightarrow> findall m t))"
  by pat_completeness auto
termination
  by (relation "measure (\<lambda>(m, s). length s)") auto

fun search :: "(string \<Rightarrow> 'a option) \<Rightarrow> string \<Rightarrow> 'a option" where
  "search m [] = m []"
| "search m (c # cs) = (case m (c # cs) of Some r \<Rightarrow> Some r | None \<Rightarrow> search m cs)"

function sub :: "(string \<Rightarrow> string option) \<Rightarrow> string \<Rightarrow> string \<Rightarrow> string" where
  "sub m repl s =
     (case m s of
        Some r \<Rightarrow>
          repl @ (if length r < length s then sub m repl r
                  else (case s of [] \<Rightarrow> [] | c # t \<Rightarrow> c # sub m repl t))
      | None \<Rightarrow> (case s of [] \<Rightarrow> [] | c # t \<Rightarrow> c # sub m repl t))"
  by pat_completeness auto
termination
  by (relation "measure (\<lambda>(m, repl, s). length s)") auto

subsection \<open>The patterns\<close>

text \<open>The lookahead \<^verbatim>\<open>(?=\$|\\qquad|$)\<close> that ends a choice in the problem text.\<close>

definition choice_lookahead :: "string \<Rightarrow> bool" where
  "choice_lookahead s = (startswith s ''$'' \<or> startswith s (bsl # ''qquad'') \<or> at_end s)"

definition is_choice_letter :: "char \<Rightarrow> bool" where
  "is_choice_letter c = (c \<in> set ''ABCDE'')"

text \<open>
  The tail \<^verbatim>\<open>([^\$]+?)(?=\$|\\qquad|$)\<close> shared by the three textual patterns; it yields
  the pair of captured groups and the rest after the match.
\<close>

definition choice_body :: "string \<Rightarrow> string \<Rightarrow> ((string \<times> string) \<times> string) option" where
  "choice_body l =
     lazy_plus_grp (\<lambda>c. c \<noteq> CHR ''$'')
       (\<lambda>g r. if choice_lookahead r then Some ((l, g), r) else None) []"

text \<open>
  \<^verbatim>\<open>\$\\textbf\{\(([A-E])\)\}\\s*([^\$]+?)(?=\$|\\qquad|$)\<close>. In the raw string
  \<^verbatim>\<open>\\s*\<close> is a literal backslash followed by any number of letters \<^verbatim>\<open>s\<close>.
\<close>

definition answer_pattern_1 :: "string \<Rightarrow> ((string \<times> string) \<times> string) option" where
  "answer_pattern_1 =
     lit (''$'' @ bsl # ''textbf{('')
       (one_grp is_choice_letter
          (\<lambda>l. lit ('')}'' @ [bsl]) (star (\<lambda>c. c = CHR ''s'') (choice_body l))))"

text \<open>\<^verbatim>\<open>\\textbf\{\(([A-E])\)\}\\s*([^\$]+?)(?=\$|\\qquad|$)\<close>.\<close>

definition answer_pattern_2 :: "string \<Rightarrow> ((string \<times> string) \<times> string) option" where
  "answer_pattern_2 =
     lit (bsl # ''textbf{('')
       (one_grp is_choice_letter
          (\<lambda>l. lit ('')}'' @ [bsl]) (star (\<lambda>c. c = CHR ''s'') (choice_body l))))"

text \<open>\<^verbatim>\<open>\(([A-E])\)\s*([^\$]+?)(?=\$|\\qquad|$)\<close>.\<close>

definition answer_pattern_3 :: "string \<Rightarrow> ((string \<times> string) \<times> string) option" where
  "answer_pattern_3 =
     lit ''(''
       (one_grp is_choice_letter
          (\<lambda>l. lit '')'' (star is_space (choice_body l))))"

definition answer_patterns :: "(string \<Rightarrow> ((string \<times> string) \<times> string) option) list" where
  "answer_patterns = [answer_pattern_1, answer_pattern_2, answer_pattern_3]"

text \<open>\<^verbatim>\<open>\$+\<close>, used to delete dollar signs from a matched choice.\<close>

definition dollars :: "string \<Rightarrow> string option" where
  "dollars = plus (\<lambda>c. c = CHR ''$'') Some"

text \<open>
  The pattern of one letter in an image's alt text:
  \<^verbatim>\<open>\\textbf\{\(X\)\}\\s*([^\\]+?)(?=\\qquad|\\textbf|$)\<close>; it yields group 1.
\<close>

definition alt_lookahead :: "string \<Rightarrow> bool" where
  "alt_lookahead s = (startswith s (bsl # ''qquad'') \<or> startswith s (bsl # ''textbf'') \<or> at_end s)"

definition alt_pattern :: "string \<Rightarrow> string \<Rightarrow> string option" where
  "alt_pattern l =
     lit (bsl # ''textbf{('' @ l @ '')}'' @ [bsl])
       (star (\<lambda>c. c = CHR ''s'')
          (lazy_plus_grp (\<lambda>c. c \<noteq> bsl) (\<lambda>g r. if alt_lookahead r then Some g else None) []))"

text \<open>\<^verbatim>\<open>\\[a-zA-Z]+\{?\}?\<close>, \<^verbatim>\<open>\s+\<close> and \<^verbatim>\<open>\$+\s*$\<close>, the clean-up patterns of alt text.\<close>

definition latex_command :: "string \<Rightarrow> string option" where
  "latex_command = lit [bsl] (plus is_alpha (opt (CHR ''{'') (opt (CHR ''}'') Some)))"

definition spaces :: "string \<Rightarrow> string option" where
  "spaces = plus is_space Some"

definition trailing_dollars :: "string \<Rightarrow> string option" where
  "trailing_dollars =
     plus (\<lambda>c. c = CHR ''$'') (star is_space (\<lambda>r. if at_end r then Some r else None))"

section \<open>Content items and answer choices\<close>

text \<open>
  The dictionaries of a content list: \<^verbatim>\<open>{"type": "text"}\<close>, \<^verbatim>\<open>{"type": "image"}\<close>,
  \<^verbatim>\<open>{"type": "line_break"}\<close> and \<^verbatim>\<open>{"type": "html"}\<close>. The width and height of an image
  are \<^verbatim>\<open>None\<close> when the attribute is missing.
\<close>

datatype content_item =
    TextItem (item_content: string)
  | ImageItem (src: string) (local_path: string) (alt: string)
      (width: "string option") (height: "string option")
  | LineBreak
  | HtmlItem (item_content: string) (html: string) (tag: string)

text \<open>An answer choice; the key \<^verbatim>\<open>"source"\<close> is absent (\<open>None\<close>) unless the code sets it.\<close>

record answer_choice =
  letter :: string
  choice_text :: string
  source :: "string option"

section \<open>Answer choices of a problem\<close>

text \<open>
  The second half of \<^verbatim>\<open>extract_problem\<close>. First the text of the \<^verbatim>\<open>text\<close> and
  \<^verbatim>\<open>html\<close> items, joined with single spaces.
\<close>

fun problem_text_parts :: "content_item list \<Rightarrow> string list" where
  "problem_text_parts [] = []"
| "problem_text_parts (TextItem t # items) = t # problem_text_parts items"
| "problem_text_parts (HtmlItem t h n # items) = t # problem_text_parts items"
| "problem_text_parts (item # items) = problem_text_parts items"

definition problem_text :: "content_item list \<Rightarrow> string" where
  "problem_text items = join '' '' (problem_text_parts items)"

text \<open>
  The loop over \<^verbatim>\<open>answer_patterns\<close>: the first pattern with a match ends the loop
  (\<^verbatim>\<open>found_choices = True; break\<close>); \<open>None\<close> is \<^verbatim>\<open>found_choices = False\<close>.
\<close>

fun first_matches :: "(string \<Rightarrow> ('a \<times> string) option) list \<Rightarrow> string \<Rightarrow> 'a list option" where
  "first_matches [] t = None"
| "first_matches (p # ps) t =
     (let matches = findall p t in
      if matches \<noteq> [] then Some matches else first_matches ps t)"

text \<open>One match of the winning pattern: dollars deleted, stripped, kept when not empty.\<close>

definition text_choice :: "string \<times> string \<Rightarrow> answer_choice list" where
  "text_choice m =
     (let t = strip (sub dollars [] (snd m)) in
      if t \<noteq> [] then [\<lparr>letter = fst m, choice_text = strip t, source = None\<rparr>] else [])"

text \<open>One letter of one image's alt text.\<close>

definition alt_choice :: "string \<Rightarrow> string \<Rightarrow> answer_choice list" where
  "alt_choice alt_text l =
     (case search (alt_pattern l) alt_text of
        None \<Rightarrow> []
      | Some g \<Rightarrow>
          (let t1 = strip (sub latex_command [] g);
               t2 = strip (sub spaces '' '' t1);
               t3 = strip (sub trailing_dollars [] t2)
           in if t3 \<noteq> [] then [\<lparr>letter = l, choice_text = t3, source = Some ''image_alt''\<rparr>]
              else []))"

definition alt_choices :: "string \<Rightarrow> answer_choice list" where
  "alt_choices alt_text = concat (map (alt_choice alt_text) [''A'', ''B'', ''C'', ''D'', ''E''])"

text \<open>The test that lets an image's alt text through.\<close>

definition has_choice_marker :: "string \<Rightarrow> bool" where
  "has_choice_marker alt_text =
     (contains alt_text (bsl # ''textbf{(A)}'') \<or> contains alt_text ''textbf{(A)}'')"

text \<open>
  The loop over the content items when the text gave nothing; it ends at the first image
  that leaves \<^verbatim>\<open>answer_choices\<close> non-empty.
\<close>

fun image_choices :: "content_item list \<Rightarrow> answer_choice list" where
  "image_choices [] = []"
| "image_choices (ImageItem s p a w h # items) =
     (if a \<noteq> [] \<and> has_choice_marker a
      then (let found = alt_choices a in if found \<noteq> [] then found else image_choices items)
      else image_choices items)"
| "image_choices (item # items) = image_choices items"

definition extract_choices :: "content_item list \<Rightarrow> answer_choice list" where
  "extract_choices items =
     (case first_matches answer_patterns (problem_text items) of
        Some matches \<Rightarrow> concat (map text_choice matches)
      | None \<Rightarrow> image_choices items)"

section \<open>The page tree\<close>

text \<open>
  A parsed page as the parser library hands it over: strings, comments (strings that
  \<^verbatim>\<open>get_text\<close> leaves out) and tags with a name, an attribute dictionary and children.
  The page itself is the tag named \<^verbatim>\<open>[document]\<close>.
\<close>

datatype node =
    Text string
  | Comment string
  | Tag string "(string \<times> string) list" "node list"

fun is_tag :: "node \<Rightarrow> bool" where
  "is_tag (Tag nm a cs) = True"
| "is_tag n = False"

fun name_of :: "node \<Rightarrow> string" where
  "name_of (Tag nm a cs) = nm"
| "name_of n = []"

fun children_of :: "node \<Rightarrow> node list" where
  "children_of (Tag nm a cs) = cs"
| "children_of n = []"

text \<open>\<^verbatim>\<open>tag.get(key)\<close>.\<close>

fun get :: "node \<Rightarrow> string \<Rightarrow> string option" where
  "get (Tag nm a cs) key = map_of a key"
| "get n key = None"

text \<open>
  \<^verbatim>\<open>tag.get_text()\<close> joins the strings below the tag; with \<^verbatim>\<open>strip=True\<close> each string
  is stripped first and left out when nothing remains.
\<close>

fun all_strings :: "node \<Rightarrow> string list" where
  "all_strings (Text s) = [s]"
| "all_strings (Comment s) = []"
| "all_strings (Tag nm a cs) = concat (map all_strings cs)"

definition get_text :: "node \<Rightarrow> string" where
  "get_text n = concat (all_strings n)"

definition get_text_strip :: "node \<Rightarrow> string" where
  "get_text_strip n = concat (filter (\<lambda>s. s \<noteq> []) (map strip (all_strings n)))"

text \<open>
  A node of the page is addressed by the child indices that lead to it from the root.
  \<open>descendants\<close> lists the nodes below a node in document order, each with its address.
\<close>

fun node_at :: "node \<Rightarrow> nat list \<Rightarrow> node option" where
  "node_at n [] = Some n"
| "node_at (Tag nm a cs) (i # p) = (if i < length cs then node_at (cs ! i) p else None)"
| "node_at n (i # p) = None"

fun descendants :: "nat list \<Rightarrow> node \<Rightarrow> (nat list \<times> node) list"
  and descendants_from :: "nat list \<Rightarrow> nat \<Rightarrow> node list \<Rightarrow> (nat list \<times> node) list" where
  "descendants p (Tag nm a cs) = descendants_from p 0 cs"
| "descendants p (Text s) = []"
| "descendants p (Comment s) = []"
| "descendants_from p i [] = []"
| "descendants_from p i (c # cs) =
     (p @ [i], c) # descendants (p @ [i]) c @ descendants_from p (Suc i) cs"

text \<open>\<^verbatim>\<open>soup.find(...)\<close> and \<^verbatim>\<open>soup.find_all(...)\<close> with the test \<open>P\<close> on a tag.\<close>

definition find_first :: "(node \<Rightarrow> bool) \<Rightarrow> node \<Rightarrow> (nat list \<times> node) option" where
  "find_first P soup = List.find (\<lambda>d. is_tag (snd d) \<and> P (snd d)) (descendants [] soup)"

definition find_all :: "(node \<Rightarrow> bool) \<Rightarrow> node \<Rightarrow> (nat list \<times> node) list" where
  "find_all P soup = filter (\<lambda>d. is_tag (snd d) \<and> P (snd d)) (descendants [] soup)"

text \<open>
  The tags that repeated \<^verbatim>\<open>find_next_sibling()\<close> returns, starting at the node with address
  \<open>p\<close>: its later siblings that are tags, in order. The root has no siblings.
\<close>

definition next_sibling_tags :: "node \<Rightarrow> nat list \<Rightarrow> node list" where
  "next_sibling_tags soup p =
     (if p = [] then []
      else (case node_at soup (butlast p) of
              None \<Rightarrow> []
            | Some parent \<Rightarrow> filter is_tag (drop (Suc (last p)) (children_of parent))))"

section \<open>The tree walker\<close>

text \<open>
  What the walker needs from outside: \<^verbatim>\<open>download_image\<close>, which fetches over the network
  and returns a local path or \<^verbatim>\<open>None\<close>, and the library's \<^verbatim>\<open>str(tag)\<close>.
\<close>

record env =
  download_image :: "string \<Rightarrow> nat \<Rightarrow> string \<Rightarrow> string option"
  to_markup :: "node \<Rightarrow> string"

definition text_item :: "string \<Rightarrow> content_item list" where
  "text_item s = (let t = strip s in if t \<noteq> [] then [TextItem t] else [])"

text \<open>\<^verbatim>\<open>img.get('src') or img.get('data-src')\<close>.\<close>

definition img_source :: "node \<Rightarrow> string option" where
  "img_source img =
     (case get img ''src'' of
        Some s \<Rightarrow> if s \<noteq> [] then Some s else get img ''data-src''
      | None \<Rightarrow> get img ''data-src'')"

definition image_item :: "env \<Rightarrow> nat \<Rightarrow> string \<Rightarrow> node \<Rightarrow> content_item list" where
  "image_item e problem_num img_type img =
     (case img_source img of
        None \<Rightarrow> []
      | Some img_src \<Rightarrow>
          if img_src = [] then []
          else (case download_image e img_src problem_num img_type of
                  None \<Rightarrow> []
                | Some lp \<Rightarrow>
                    if lp = [] then []
                    else [ImageItem img_src lp
                            (case get img ''alt'' of Some a \<Rightarrow> a | None \<Rightarrow> [])
                            (get img ''width'') (get img ''height'')]))"

definition find_img :: "node \<Rightarrow> node option" where
  "find_img n = map_option snd (find_first (\<lambda>d. name_of d = ''img'') n)"

text \<open>The tests on a child's tag name, one for each branch of the walker.\<close>

definition is_img :: "string \<Rightarrow> bool" where
  "is_img nm = (nm = ''img'')"

definition is_link :: "string \<Rightarrow> bool" where
  "is_link nm = (nm = ''a'')"

definition is_container :: "string \<Rightarrow> bool" where
  "is_container nm = (nm \<in> set [''p'', ''div'', ''span'', ''br'', ''pre'', ''code''])"

definition is_br :: "string \<Rightarrow> bool" where
  "is_br nm = (nm = ''br'')"

text \<open>
  \<^verbatim>\<open>extract_content_with_images\<close> on an element, and \<open>process_child\<close>, the body of its
  loop over the children, with the branches in the order of the source.
\<close>

fun extract_content_with_images :: "env \<Rightarrow> nat \<Rightarrow> string \<Rightarrow> node \<Rightarrow> content_item list"
  and process_child :: "env \<Rightarrow> nat \<Rightarrow> string \<Rightarrow> node \<Rightarrow> content_item list" where
  "extract_content_with_images e problem_num img_type (Text s) = text_item s"
| "extract_content_with_images e problem_num img_type (Comment s) = text_item s"
| "extract_content_with_images e problem_num img_type (Tag nm a cs) =
     concat (map (process_child e problem_num img_type) cs)"
| "process_child e problem_num img_type (Text s) = text_item s"
| "process_child e problem_num img_type (Comment s) = text_item s"
| "process_child e problem_num img_type (Tag nm a cs) =
     (if is_img nm then image_item e problem_num img_type (Tag nm a cs)
      else if is_link nm \<and> find_img (Tag nm a cs) \<noteq> None then
        (case find_img (Tag nm a cs) of
           Some img \<Rightarrow> image_item e problem_num img_type img
         | None \<Rightarrow> [])
      else if is_container nm then
        extract_content_with_images e problem_num img_type (Tag nm a cs)
      else if is_br nm then [LineBreak]
      else (let text = get_text_strip (Tag nm a cs) in
            if text \<noteq> [] then [HtmlItem text (to_markup e (Tag nm a cs)) nm] else []))"

section \<open>The problem section\<close>

text \<open>The part of \<^verbatim>\<open>problem_data\<close> that \<^verbatim>\<open>extract_problem\<close> fills.\<close>

record problem_data =
  number :: nat
  content :: "content_item list"
  answer_choices :: "answer_choice list"

definition is_problem_span :: "node \<Rightarrow> bool" where
  "is_problem_span n = (name_of n = ''span'' \<and> get n ''id'' = Some ''Problem'')"

definition is_heading_or_span :: "node \<Rightarrow> bool" where
  "is_heading_or_span n = (name_of n \<in> set [''h2'', ''h3'', ''span''])"

definition has_problem_text :: "node \<Rightarrow> bool" where
  "has_problem_text n = (lower (strip (get_text n)) = ''problem'' \<or> is_problem_span n)"

text \<open>
  The Problem anchor: the span with id \<^verbatim>\<open>Problem\<close>, else the first \<^verbatim>\<open>h2\<close>,
  \<^verbatim>\<open>h3\<close> or \<^verbatim>\<open>span\<close> whose stripped, lower-cased text is \<^verbatim>\<open>problem\<close>. The result
  is the address of the anchor.
\<close>

definition find_problem_heading :: "node \<Rightarrow> nat list option" where
  "find_problem_heading soup =
     (case find_first is_problem_span soup of
        Some d \<Rightarrow> Some (fst d)
      | None \<Rightarrow>
          map_option fst (List.find (\<lambda>d. has_problem_text (snd d)) (find_all is_heading_or_span soup)))"

text \<open>
  Where the sibling scan starts: after the anchor's parent, unless the parent is a
  \<^verbatim>\<open>div\<close>, in which case after the anchor itself. An anchor found by \<^verbatim>\<open>find\<close> always has
  a parent.
\<close>

definition problem_siblings :: "node \<Rightarrow> nat list \<Rightarrow> node list" where
  "problem_siblings soup p =
     (case node_at soup (butlast p) of
        None \<Rightarrow> []
      | Some parent \<Rightarrow>
          if name_of parent \<noteq> ''div'' then next_sibling_tags soup (butlast p)
          else next_sibling_tags soup p)"

text \<open>The two tests that end the problem region.\<close>

definition is_section_heading :: "node \<Rightarrow> bool" where
  "is_section_heading current =
     (name_of current \<in> set [''h2'', ''h3''] \<and>
      (let text = lower (strip (get_text current)) in
       contains text ''solution'' \<or> contains text ''see also'' \<or> contains text ''video solution''))"

definition is_solution_span :: "node \<Rightarrow> bool" where
  "is_solution_span current =
     (name_of current = ''span'' \<and>
      (case get current ''id'' of
         None \<Rightarrow> False
       | Some i \<Rightarrow> i \<noteq> [] \<and> startswith i ''Solution''))"

text \<open>The \<^verbatim>\<open>while current\<close> loop of \<^verbatim>\<open>extract_problem\<close> over the siblings still ahead.\<close>

fun problem_content :: "node list \<Rightarrow> node list" where
  "problem_content [] = []"
| "problem_content (current # rest) =
     (if is_section_heading current then []
      else if is_solution_span current then []
      else current # problem_content rest)"

definition extract_problem :: "env \<Rightarrow> node \<Rightarrow> nat \<Rightarrow> problem_data" where
  "extract_problem e soup problem_num =
     (case find_problem_heading soup of
        None \<Rightarrow> \<lparr>number = problem_num, content = [], answer_choices = []\<rparr>
      | Some p \<Rightarrow>
          (let items = concat (map (extract_content_with_images e problem_num ''problem'')
                                 (problem_content (problem_siblings soup p)))
           in \<lparr>number = problem_num, content = items, answer_choices = extract_choices items\<rparr>))"

section \<open>The solution sections\<close>

record solution_data =
  sol_number :: nat
  sol_content :: "content_item list"

text \<open>
  \<^verbatim>\<open>re.search(r'Solution_(\d+)', span_id)\<close> and
  \<^verbatim>\<open>re.search(r'solution\s+(\d+)', text, re.IGNORECASE)\<close>, each followed by \<^verbatim>\<open>int\<close> of group 1.
\<close>

definition solution_id_number :: "string \<Rightarrow> nat option" where
  "solution_id_number span_id =
     map_option int_of_digits
       (search (lit ''Solution_'' (plus_grp is_digit (\<lambda>g r. Some g))) span_id)"

definition heading_text_number :: "string \<Rightarrow> nat option" where
  "heading_text_number text =
     map_option int_of_digits
       (search (lit_nocase ''solution'' (plus is_space (plus_grp is_digit (\<lambda>g r. Some g)))) text)"

definition is_span_with_id :: "node \<Rightarrow> bool" where
  "is_span_with_id n = (name_of n = ''span'' \<and> get n ''id'' \<noteq> None)"

text \<open>The test that ends the content of solution \<open>i\<close> at the sibling \<open>current\<close>.\<close>

definition ends_solution :: "nat \<Rightarrow> nat \<Rightarrow> node \<Rightarrow> bool" where
  "ends_solution i max_solutions current =
     (name_of current = ''h2'' \<and>
      (case find_first is_span_with_id current of
         Some d \<Rightarrow>
           (let span_id = (case get (snd d) ''id'' of Some v \<Rightarrow> v | None \<Rightarrow> []) in
            if startswith span_id ''Solution_'' then
              (case solution_id_number span_id of
                 Some next_num \<Rightarrow> next_num = i + 1
               | None \<Rightarrow> False)
            else startswith span_id ''Video'' \<or> startswith span_id ''See_Also'')
       | None \<Rightarrow>
           (let text = lower (strip (get_text current)) in
            if startswith text ''solution'' \<and> i < max_solutions then
              (case heading_text_number text of
                 Some next_num \<Rightarrow> next_num = i + 1
               | None \<Rightarrow> False)
            else startswith text ''video'' \<or> startswith text ''see also'')))"

text \<open>The \<^verbatim>\<open>while current\<close> loop of \<^verbatim>\<open>extract_solutions\<close>.\<close>

fun solution_content :: "env \<Rightarrow> nat \<Rightarrow> nat \<Rightarrow> nat \<Rightarrow> node list \<Rightarrow> content_item list" where
  "solution_content e problem_num i max_solutions [] = []"
| "solution_content e problem_num i max_solutions (current # rest) =
     (if ends_solution i max_solutions current then []
      else extract_content_with_images e problem_num (''solution_'' @ str_of_nat i) current
           @ solution_content e problem_num i max_solutions rest)"

definition is_solution_anchor :: "nat \<Rightarrow> node \<Rightarrow> bool" where
  "is_solution_anchor i n =
     (name_of n = ''span'' \<and> get n ''id'' = Some (''Solution_'' @ str_of_nat i))"

definition is_h2_or_h3 :: "node \<Rightarrow> bool" where
  "is_h2_or_h3 n = (name_of n \<in> set [''h2'', ''h3''])"

definition has_solution_text :: "nat \<Rightarrow> node \<Rightarrow> bool" where
  "has_solution_text i n =
     (let text = strip (get_text n) in
      text = ''Solution '' @ str_of_nat i \<or> text = ''Solution '' @ str_of_nat i @ '':'')"

text \<open>
  The heading of solution \<open>i\<close>, given the address of its anchor span: the parent when it is
  an \<^verbatim>\<open>h2\<close>, else the first \<^verbatim>\<open>h2\<close> or \<^verbatim>\<open>h3\<close> with the text of the solution's title.
\<close>

definition solution_heading :: "node \<Rightarrow> nat \<Rightarrow> nat list \<Rightarrow> nat list option" where
  "solution_heading soup i p =
     (case node_at soup (butlast p) of
        None \<Rightarrow> None
      | Some parent \<Rightarrow>
          if name_of parent = ''h2'' then Some (butlast p)
          else map_option fst
                 (List.find (\<lambda>d. has_solution_text i (snd d)) (find_all is_h2_or_h3 soup)))"

text \<open>
  The loop \<^verbatim>\<open>for i in range(1, max_solutions + 1)\<close> over the indices still ahead; both
  \<^verbatim>\<open>break\<close>s end it.
\<close>

fun solutions_loop :: "env \<Rightarrow> node \<Rightarrow> nat \<Rightarrow> nat \<Rightarrow> nat list \<Rightarrow> solution_data list" where
  "solutions_loop e soup problem_num max_solutions [] = []"
| "solutions_loop e soup problem_num max_solutions (i # rest) =
     (case find_first (is_solution_anchor i) soup of
        None \<Rightarrow> []
      | Some d \<Rightarrow>
          (case solution_heading soup i (fst d) of
             None \<Rightarrow> []
           | Some hp \<Rightarrow>
               (let items = solution_content e problem_num i max_solutions (next_sibling_tags soup hp)
                in (if items \<noteq> [] then [\<lparr>sol_number = i, sol_content = items\<rparr>] else [])
                   @ solutions_loop e soup problem_num max_solutions rest)))"

definition extract_solutions :: "env \<Rightarrow> node \<Rightarrow> nat \<Rightarrow> nat \<Rightarrow> solution_data list" where
  "extract_solutions e soup problem_num max_solutions =
     solutions_loop e soup problem_num max_solutions [1..<max_solutions + 1]"

section \<open>Example inputs\<close>

text \<open>
  A stand-in for the outside world in the examples: every download succeeds, and markup is
  written out tag by tag.
\<close>

fun render :: "node \<Rightarrow> string" where
  "render (Text s) = s"
| "render (Comment s) = ''<!--'' @ s @ ''-->''"
| "render (Tag nm a cs) =
     ''<'' @ nm @ concat (map (\<lambda>kv. '' '' @ fst kv @ ''='' @ CHR 0x22 # snd kv @ [CHR 0x22]) a) @ ''>''
     @ concat (map render cs) @ ''</'' @ nm @ ''>''"

definition sample_env :: env where
  "sample_env =
     \<lparr>download_image = (\<lambda>url n ty. Some (''images/problem_'' @ str_of_nat n @ ''_'' @ ty @ ''_0.png'')),
      to_markup = render\<rparr>"

definition page :: "node list \<Rightarrow> node" where
  "page cs = Tag ''[document]'' [] cs"

text \<open>A wiki section heading: \<^verbatim>\<open><h2><span class="mw-headline" id=...>title</span></h2>\<close>.\<close>

definition headline :: "string \<Rightarrow> string \<Rightarrow> node" where
  "headline i t = Tag ''h2'' [] [Tag ''span'' [(''class'', ''mw-headline''), (''id'', i)] [Text t]]"

text \<open>\<^verbatim>\<open>The answer is $\textbf{(A)}\ 5 \qquad \textbf{(B)}\ 10$\<close>\<close>

definition answer_is_text :: string where
  "answer_is_text =
     ''The answer is $'' @ bsl # ''textbf{(A)}'' @ bsl # '' 5 '' @ bsl # ''qquad '' @ bsl #
     ''textbf{(B)}'' @ bsl # '' 10$''"

text \<open>\<^verbatim>\<open><p>a<br/>b</p>\<close>\<close>

definition break_paragraph :: node where
  "break_paragraph = Tag ''p'' [] [Text ''a'', Tag ''br'' [] [], Text ''b'']"

text \<open>A table that holds only an image, and a table that holds text.\<close>

definition image_table :: node where
  "image_table = Tag ''table'' [] [Tag ''tr'' [] [Tag ''td'' [] [Tag ''img'' [(''src'', ''/x.png'')] []]]]"

definition text_table :: node where
  "text_table = Tag ''table'' [] [Tag ''tr'' [] [Tag ''td'' [] [Text ''cell '']]]"

text \<open>A page with the anchors \<^verbatim>\<open>Solution_1\<close> and \<^verbatim>\<open>Solution_3\<close> but no \<^verbatim>\<open>Solution_2\<close>.\<close>

definition gap_page :: node where
  "gap_page =
     page [headline ''Problem'' ''Problem'', Tag ''p'' [] [Text ''What is 1+1?''],
           headline ''Solution_1'' ''Solution 1'', Tag ''p'' [] [Text ''Two.''],
           headline ''Solution_3'' ''Solution 3'', Tag ''p'' [] [Text ''Also two.'']]"



text \<open>
  Alt texts: \<^verbatim>\<open>\textbf{(A)}\ 3\qquad\textbf{(B)}\ 4\<close>, \<^verbatim>\<open>textbf{(A)} 1\<close> (it passes the
  marker test, but no letter's pattern matches it) and \<^verbatim>\<open>\textbf{(B)}\ 4\qquad\textbf{(C)}\ 5\<close>.
\<close>

definition choices_alt :: string where
  "choices_alt =
     bsl # ''textbf{(A)}'' @ bsl # '' 3'' @ bsl # ''qquad'' @ bsl # ''textbf{(B)}'' @ bsl # '' 4''"

definition bare_marker_alt :: string where
  "bare_marker_alt = ''textbf{(A)} 1''"

definition later_letters_alt :: string where
  "later_letters_alt =
     bsl # ''textbf{(B)}'' @ bsl # '' 4'' @ bsl # ''qquad'' @ bsl # ''textbf{(C)}'' @ bsl # '' 5''"

definition image_with_alt :: "string \<Rightarrow> content_item" where
  "image_with_alt a = ImageItem ''/latex.png'' ''images/problem_1_problem_0.png'' a None None"

definition two_choices :: "answer_choice list" where
  "two_choices =
     [\<lparr>letter = ''A'', choice_text = ''3'', source = Some ''image_alt''\<rparr>,
      \<lparr>letter = ''B'', choice_text = ''4'', source = Some ''image_alt''\<rparr>]"


text \<open>A page with no Problem anchor.\<close>

definition no_anchor_page :: node where
  "no_anchor_page = page [Tag ''h2'' [] [Text ''Overview''], Tag ''p'' [] [Text ''Nothing here.'']]"

text \<open>
  A page whose only element reading "Problem" is a table-of-contents span without id:
  \<^verbatim>\<open><div><span class="toctext">Problem</span><p>text</p></div>\<close>.
\<close>

definition toc_span_page :: node where
  "toc_span_page =
     page [Tag ''div'' [] [Tag ''span'' [(''class'', ''toctext'')] [Text ''Problem''],
                         Tag ''p'' [] [Text ''text'']]]"

text \<open>A page whose heading starts with a no-break space: \<^verbatim>\<open><div><h2>&nbsp;Problem</h2><p>x</p></div>\<close>.\<close>

definition nbsp_heading_page :: node where
  "nbsp_heading_page =
     page [Tag ''div'' [] [Tag ''h2'' [] [Text (CHR 0xA0 # ''Problem'')], Tag ''p'' [] [Text ''x'']]]"


text \<open>A paragraph with a table between two strings.\<close>

definition table_paragraph :: node where
  "table_paragraph = Tag ''p'' [] ([Text ''see''] @ text_table # [Text ''end''])"

section \<open>The tree walker: line breaks and other tags\<close>

lemma text_item_no_break: "LineBreak \<notin> set (text_item s)"
  by (simp add: text_item_def Let_def)

lemma image_item_no_break: "LineBreak \<notin> set (image_item e pn ty n)"
  by (simp add: image_item_def split: option.splits)

lemma is_br_container: "is_br nm \<Longrightarrow> is_container nm"
  by (simp add: is_br_def is_container_def)

text \<open>
  The branch for \<^verbatim>\<open>br\<close> comes after the branch for the containers, whose list holds
  \<^verbatim>\<open>br\<close>: no walk ever yields a line break.
\<close>

lemma no_line_break:
  "LineBreak \<notin> set (extract_content_with_images e pn ty n)"
  "LineBreak \<notin> set (process_child e pn ty n)"
proof (induction e pn ty n and e pn ty n rule: extract_content_with_images_process_child.induct)
  case (6 e problem_num img_type nm a cs)
  then show ?case
    by (auto simp: image_item_no_break is_br_container Let_def split: option.splits)
qed (auto simp: text_item_no_break)

text \<open>
  C2 (code defect). A \<^verbatim>\<open>br\<close> element yields nothing, where the claim says one line-break
  item: the paragraph \<^verbatim>\<open><p>a<br/>b</p>\<close> walks to the two text items only.
\<close>

theorem c2_br_yields_nothing:
  "process_child sample_env 1 ''problem'' (Tag ''br'' [] []) = [] \<and>
   extract_content_with_images sample_env 1 ''problem'' break_paragraph = [TextItem ''a'', TextItem ''b'']"
  by code_simp

lemma walk_append:
  "extract_content_with_images e pn ty (Tag nm a (xs @ ys)) =
     extract_content_with_images e pn ty (Tag nm a xs) @ extract_content_with_images e pn ty (Tag nm a ys)"
  by simp

lemma other_tag_child:
  assumes "\<not> is_img nm"
    and "\<not> (is_link nm \<and> find_img (Tag nm a cs) \<noteq> None)"
    and "\<not> is_container nm"
  shows "process_child e pn ty (Tag nm a cs) =
           (if get_text_strip (Tag nm a cs) \<noteq> []
            then [HtmlItem (get_text_strip (Tag nm a cs)) (to_markup e (Tag nm a cs)) nm]
            else [])"
  using assms is_br_container[of nm] by (auto simp: Let_def)

text \<open>
  C3, as stated, fails: a table that holds only an image has no visible text, and the
  walker yields nothing for it, whether it meets the table as a child of the element it
  walks or is called on the table itself.
\<close>

theorem c3_image_table_counterexample:
  "get_text_strip image_table = [] \<and>
   extract_content_with_images sample_env 1 ''problem'' (Tag ''div'' [] [image_table]) = [] \<and>
   extract_content_with_images sample_env 1 ''problem'' image_table = []"
  by code_simp

text \<open>
  C3, amended. The walker looks at the tag of each child of the element it walks, never at
  the tag of that element. A child that is not an image, not a link around an image and not
  a container contributes, at its place among the children, exactly one raw fragment with
  its stripped visible text, its markup and its tag name when that text is not empty, and
  nothing when it is empty. Called on such a node itself, the walker returns what the
  node's children contribute.
\<close>

theorem c3_other_tag_fragment:
  assumes "\<not> is_img nm"
    and "\<not> (is_link nm \<and> find_img (Tag nm a cs) \<noteq> None)"
    and "\<not> is_container nm"
  shows "extract_content_with_images e pn ty (Tag pnm pa (before @ Tag nm a cs # after)) =
           extract_content_with_images e pn ty (Tag pnm pa before)
           @ (if get_text_strip (Tag nm a cs) \<noteq> []
              then [HtmlItem (get_text_strip (Tag nm a cs)) (to_markup e (Tag nm a cs)) nm]
              else [])
           @ extract_content_with_images e pn ty (Tag pnm pa after) \<and>
         extract_content_with_images e pn ty (Tag nm a cs) = concat (map (process_child e pn ty) cs)"
proof -
  have "extract_content_with_images e pn ty (Tag pnm pa (before @ Tag nm a cs # after)) =
          extract_content_with_images e pn ty (Tag pnm pa before)
          @ process_child e pn ty (Tag nm a cs)
          @ extract_content_with_images e pn ty (Tag pnm pa after)"
    by simp
  then show ?thesis
    by (simp only: other_tag_child[OF assms] extract_content_with_images.simps simp_thms)
qed

theorem c3_other_tag_fragment_witness:
  "\<not> is_img ''table'' \<and>
   \<not> (is_link ''table'' \<and> find_img text_table \<noteq> None) \<and>
   \<not> is_container ''table'' \<and>
   extract_content_with_images sample_env 1 ''problem'' table_paragraph =
     [TextItem ''see'', HtmlItem ''cell'' ''<table><tr><td>cell </td></tr></table>'' ''table'',
      TextItem ''end''] \<and>
   extract_content_with_images sample_env 1 ''problem'' text_table =
     [HtmlItem ''cell'' ''<tr><td>cell </td></tr>'' ''tr'']"
proof -
  have h1: "\<not> is_img ''table''" by code_simp
  have h2: "\<not> (is_link ''table'' \<and> find_img (Tag ''table'' [] [Tag ''tr'' [] [Tag ''td'' [] [Text ''cell '']]]) \<noteq> None)"
    by code_simp
  have h3: "\<not> is_container ''table''" by code_simp
  have t: "get_text_strip text_table = ''cell''" by code_simp
  have m: "to_markup sample_env text_table = ''<table><tr><td>cell </td></tr></table>''" by code_simp
  have b: "extract_content_with_images sample_env 1 ''problem'' (Tag ''p'' [] [Text ''see'']) = [TextItem ''see'']"
    by code_simp
  have a: "extract_content_with_images sample_env 1 ''problem'' (Tag ''p'' [] [Text ''end'']) = [TextItem ''end'']"
    by code_simp
  have c: "concat (map (process_child sample_env 1 ''problem'') [Tag ''tr'' [] [Tag ''td'' [] [Text ''cell '']]]) =
             [HtmlItem ''cell'' ''<tr><td>cell </td></tr>'' ''tr'']"
    by code_simp
  note inst = c3_other_tag_fragment[OF h1 h2 h3, of sample_env 1 "''problem''" "''p''" "[]"
       "[Text ''see'']" "[Text ''end'']", folded text_table_def table_paragraph_def]
  from inst have 1: "extract_content_with_images sample_env 1 ''problem'' table_paragraph =
     [TextItem ''see'', HtmlItem ''cell'' ''<table><tr><td>cell </td></tr></table>'' ''table'',
      TextItem ''end'']"
    by (simp only: t m a b) simp
  from inst have 2: "extract_content_with_images sample_env 1 ''problem'' text_table =
     [HtmlItem ''cell'' ''<tr><td>cell </td></tr>'' ''tr'']"
    by (simp only: c)
  from h1 h2 h3 1 2 show ?thesis unfolding text_table_def[symmetric] by blast
qed

section \<open>Answer choices from the problem text\<close>

text \<open>
  C1, as stated, fails: for the text
  \<^verbatim>\<open>The answer is $\textbf{(A)}\ 5 \qquad \textbf{(B)}\ 10$\<close> the extractor does not return
  the two choices A and B.
\<close>

theorem c1_two_choices_counterexample:
  "map (\<lambda>c. (letter c, choice_text c)) (extract_choices [TextItem answer_is_text])
     \<noteq> [(''A'', ''5''), (''B'', ''10'')]"
  by code_simp

text \<open>
  C1, amended. The first pattern wants a dollar sign right before \<^verbatim>\<open>\textbf\<close>, so it
  matches choice A only; having a match, it wins, and the second pattern, which would match
  both choices, is not tried. The extractor returns the single choice A with text 5.
\<close>

theorem c1_first_pattern_wins:
  "findall answer_pattern_1 answer_is_text = [(''A'', '' 5 '')] \<and>
   findall answer_pattern_2 answer_is_text = [(''A'', '' 5 ''), (''B'', '' 10'')] \<and>
   first_matches answer_patterns (problem_text [TextItem answer_is_text]) = Some [(''A'', '' 5 '')] \<and>
   extract_choices [TextItem answer_is_text] = [\<lparr>letter = ''A'', choice_text = ''5'', source = None\<rparr>]"
  by code_simp


section \<open>The sections of a page\<close>

lemma upt_from_one:
  assumes "2 \<le> (m::nat)"
  shows "\<exists>rest. [1..<m + 1] = 1 # 2 # rest"
proof -
  have a: "[1..<m + 1] = 1 # [Suc 1..<m + 1]"
    using assms by (intro upt_conv_Cons) simp
  have b: "[Suc 1..<m + 1] = Suc 1 # [Suc (Suc 1)..<m + 1]"
    using assms by (intro upt_conv_Cons) simp
  have "[1..<m + 1] = 1 # Suc 1 # [Suc (Suc 1)..<m + 1]"
    by (simp only: a b)
  then show ?thesis
    unfolding Suc_1 by blast
qed

lemma gap_stops_loop:
  assumes "find_first (is_solution_anchor 2) soup = None"
  shows "\<forall>s \<in> set (extract_solutions e soup pn m). sol_number s < 2"
proof (cases "m < 2")
  case True
  then have "m = 0 \<or> m = 1" by auto
  then show ?thesis
  proof
    assume "m = 0"
    then show ?thesis by (simp add: extract_solutions_def)
  next
    assume "m = 1"
    then have "extract_solutions e soup pn m = solutions_loop e soup pn m [1]"
      by (simp add: extract_solutions_def)
    then show ?thesis
      by (auto simp: Let_def split: option.splits if_splits)
  qed
next
  case False
  then have "2 \<le> m" by simp
  then obtain rest where "[1..<m + 1] = 1 # 2 # rest"
    using upt_from_one by blast
  then have "extract_solutions e soup pn m = solutions_loop e soup pn m (1 # 2 # rest)"
    by (simp only: extract_solutions_def)
  moreover have "solutions_loop e soup pn m (2 # rest) = []"
    using assms by simp
  ultimately show ?thesis
    by (auto simp: Let_def split: option.splits if_splits)
qed
text \<open>
  C4. When the page has no span with id \<^verbatim>\<open>Solution_2\<close> but has one with id
  \<^verbatim>\<open>Solution_3\<close>, every solution returned has a number below 2, whatever the cap on the
  number of solutions.
\<close>

theorem c4_gap_stops_scan:
  assumes "find_first (is_solution_anchor 2) soup = None"
    and "find_first (is_solution_anchor 3) soup \<noteq> None"
  shows "\<forall>s \<in> set (extract_solutions e soup pn max_solutions). sol_number s < 2"
  using assms(1) by (rule gap_stops_loop)

theorem c4_gap_stops_scan_witness:
  "find_first (is_solution_anchor 2) gap_page = None \<and>
   find_first (is_solution_anchor 3) gap_page \<noteq> None \<and>
   map sol_number (extract_solutions sample_env gap_page 1 3) = [1] \<and>
   list_all (\<lambda>s. sol_number s < 2) (extract_solutions sample_env gap_page 1 3)"
proof -
  have h1: "find_first (is_solution_anchor 2) gap_page = None" by code_simp
  have h2: "find_first (is_solution_anchor 3) gap_page \<noteq> None" by code_simp
  have r: "map sol_number (extract_solutions sample_env gap_page 1 3) = [1]" by code_simp
  have "list_all (\<lambda>s. sol_number s < 2) (extract_solutions sample_env gap_page 1 3)"
    using c4_gap_stops_scan[OF h1 h2, of sample_env 1 3] by (simp only: list_all_iff)
  with h1 h2 r show ?thesis by blast
qed

text \<open>
  C7, as stated, fails: a page with no span of id \<^verbatim>\<open>Problem\<close> and no heading element at
  all, but with a plain span that reads "Problem", has an anchor for the code (the span),
  and the content returned is not empty.
\<close>

theorem c7_plain_span_counterexample:
  "find_first is_problem_span toc_span_page = None \<and>
   find_all (\<lambda>n. name_of n \<in> set [''h1'', ''h2'', ''h3'', ''h4'', ''h5'', ''h6'']) toc_span_page = [] \<and>
   find_problem_heading toc_span_page = Some [0, 0] \<and>
   content (extract_problem sample_env toc_span_page 1) = [TextItem ''text'']"
  by code_simp

text \<open>A heading that reads "Problem" after a no-break space is found as the anchor.\<close>

lemma nbsp_heading_found:
  "find_problem_heading nbsp_heading_page = Some [0, 0] \<and>
   content (extract_problem sample_env nbsp_heading_page 1) = [TextItem ''x'']"
  by code_simp

text \<open>
  C7, amended. When the page has no span with id \<^verbatim>\<open>Problem\<close> and no \<^verbatim>\<open>h2\<close>, \<^verbatim>\<open>h3\<close> or
  \<^verbatim>\<open>span\<close> whose stripped, lower-cased text is \<^verbatim>\<open>problem\<close>, the record returned has an
  empty content list and no answer choices. The function is total: it has no failing branch.
\<close>

theorem c7_no_anchor_empty:
  assumes "\<forall>d \<in> set (descendants [] soup). \<not> (is_tag (snd d) \<and> is_problem_span (snd d))"
    and "\<forall>d \<in> set (descendants [] soup).
           is_tag (snd d) \<and> is_heading_or_span (snd d) \<longrightarrow> lower (strip (get_text (snd d))) \<noteq> ''problem''"
  shows "extract_problem e soup pn = \<lparr>number = pn, content = [], answer_choices = []\<rparr>"
proof -
  have a: "find_first is_problem_span soup = None"
    using assms(1) by (auto simp: find_first_def find_None_iff)
  have b: "List.find (\<lambda>d. has_problem_text (snd d)) (find_all is_heading_or_span soup) = None"
    using assms by (auto simp: find_all_def find_None_iff has_problem_text_def)
  show ?thesis
    by (simp add: extract_problem_def find_problem_heading_def a b)
qed

theorem c7_no_anchor_empty_witness:
  "list_all (\<lambda>d. \<not> (is_tag (snd d) \<and> is_problem_span (snd d))) (descendants [] no_anchor_page) \<and>
   list_all (\<lambda>d. is_tag (snd d) \<and> is_heading_or_span (snd d) \<longrightarrow>
                  lower (strip (get_text (snd d))) \<noteq> ''problem'') (descendants [] no_anchor_page) \<and>
   length (descendants [] no_anchor_page) = 4 \<and>
   extract_problem sample_env no_anchor_page 4 = \<lparr>number = 4, content = [], answer_choices = []\<rparr>"
proof -
  have h1: "\<forall>d \<in> set (descendants [] no_anchor_page). \<not> (is_tag (snd d) \<and> is_problem_span (snd d))"
    by code_simp
  have h2: "\<forall>d \<in> set (descendants [] no_anchor_page).
      is_tag (snd d) \<and> is_heading_or_span (snd d) \<longrightarrow> lower (strip (get_text (snd d))) \<noteq> ''problem''"
    by code_simp
  have n: "length (descendants [] no_anchor_page) = 4" by code_simp
  have l1: "list_all (\<lambda>d. \<not> (is_tag (snd d) \<and> is_problem_span (snd d))) (descendants [] no_anchor_page)"
    using h1 by (simp only: list_all_iff)
  have l2: "list_all (\<lambda>d. is_tag (snd d) \<and> is_heading_or_span (snd d) \<longrightarrow>
                  lower (strip (get_text (snd d))) \<noteq> ''problem'') (descendants [] no_anchor_page)"
    using h2 by (simp only: list_all_iff)
  from c7_no_anchor_empty[OF h1 h2, of sample_env 4] l1 l2 n show ?thesis
    by blast
qed






section \<open>Answer choices: letters and sources\<close>

lemma alt_choice_letter:
  "c \<in> set (alt_choice a l) \<Longrightarrow> letter c = l \<and> source c = Some ''image_alt''"
  unfolding alt_choice_def Let_def
  by (cases "search (alt_pattern l) a") (simp_all split: if_splits)





lemma alt_choices_source: "c \<in> set (alt_choices a) \<Longrightarrow> source c = Some ''image_alt''"
  unfolding alt_choices_def using alt_choice_letter by auto

lemma image_choices_source: "c \<in> set (image_choices items) \<Longrightarrow> source c = Some ''image_alt''"
  by (induction items rule: image_choices.induct)
     (auto simp: alt_choices_source Let_def split: if_splits)

lemma text_choice_source: "c \<in> set (text_choice m) \<Longrightarrow> source c = None"
  by (auto simp: text_choice_def Let_def split: if_splits)

lemma skip_fruitless:
  "image_choices pre = [] \<Longrightarrow> image_choices (pre @ items) = image_choices items"
  by (induction pre rule: image_choices.induct) (auto simp: Let_def split: if_splits)




text \<open>
  C6, as stated, fails: a choice found in the problem text has no source field at all,
  not the value \<^verbatim>\<open>text\<close>.
\<close>

theorem c6_text_source_counterexample:
  "extract_choices [TextItem ''(A) 5''] = [\<lparr>letter = ''A'', choice_text = ''5'', source = None\<rparr>] \<and>
   map source (extract_choices [TextItem ''(A) 5'']) \<noteq> [Some ''text'']"
  by code_simp

text \<open>
  C6, amended. Every answer choice that comes from the image-alt fallback carries the
  source \<^verbatim>\<open>image_alt\<close>; every answer choice that comes from the textual patterns carries
  no source field.
\<close>

theorem c6_source_field:
  "\<forall>c \<in> set (extract_choices items).
     source c = (if first_matches answer_patterns (problem_text items) = None
                 then Some ''image_alt'' else None)"
  by (auto simp: extract_choices_def image_choices_source text_choice_source split: option.splits)

theorem c6_source_field_witness:
  "extract_choices [image_with_alt choices_alt] = two_choices \<and>
   first_matches answer_patterns (problem_text [image_with_alt choices_alt]) = None \<and>
   list_all (\<lambda>c. source c = Some ''image_alt'') (extract_choices [image_with_alt choices_alt]) \<and>
   extract_choices [TextItem ''(B) 7''] = [\<lparr>letter = ''B'', choice_text = ''7'', source = None\<rparr>] \<and>
   first_matches answer_patterns (problem_text [TextItem ''(B) 7'']) \<noteq> None \<and>
   list_all (\<lambda>c. source c = None) (extract_choices [TextItem ''(B) 7''])"
proof -
  have r: "extract_choices [image_with_alt choices_alt] = two_choices" by code_simp
  have f: "first_matches answer_patterns (problem_text [image_with_alt choices_alt]) = None"
    by code_simp
  have r': "extract_choices [TextItem ''(B) 7''] = [\<lparr>letter = ''B'', choice_text = ''7'', source = None\<rparr>]"
    by code_simp
  have f': "first_matches answer_patterns (problem_text [TextItem ''(B) 7'']) \<noteq> None"
    by code_simp
  have a: "list_all (\<lambda>c. source c = Some ''image_alt'') (extract_choices [image_with_alt choices_alt])"
    using c6_source_field[of "[image_with_alt choices_alt]"] f by (simp add: list_all_iff)
  have b: "list_all (\<lambda>c. source c = None) (extract_choices [TextItem ''(B) 7''])"
    using c6_source_field[of "[TextItem ''(B) 7'']"] f' by (simp add: list_all_iff)
  from r f r' f' a b show ?thesis by blast
qed

lemma choices_alt_choices: "alt_choices choices_alt = two_choices"
  by code_simp

lemma choices_alt_marked: "choices_alt \<noteq> [] \<and> has_choice_marker choices_alt"
  by code_simp

lemma two_choices_not_empty: "two_choices \<noteq> []"
  by (simp add: two_choices_def)

text \<open>
  C8. When no textual pattern matches and the region holds an image item with the alt text
  \<^verbatim>\<open>\textbf{(A)}\ 3\qquad\textbf{(B)}\ 4\<close>, with no earlier item giving a choice (the scan
  ends at the first image that gives any), the extractor returns the choices A with text 3
  and B with text 4, each with the source \<^verbatim>\<open>image_alt\<close>, whatever comes before and after
  the image.
\<close>

theorem c8_image_alt_choices:
  assumes "first_matches answer_patterns
             (problem_text (pre @ ImageItem s p choices_alt w h # post)) = None"
    and "image_choices pre = []"
  shows "extract_choices (pre @ ImageItem s p choices_alt w h # post) =
           [\<lparr>letter = ''A'', choice_text = ''3'', source = Some ''image_alt''\<rparr>,
            \<lparr>letter = ''B'', choice_text = ''4'', source = Some ''image_alt''\<rparr>]"
proof -
  have "extract_choices (pre @ ImageItem s p choices_alt w h # post) =
          image_choices (pre @ ImageItem s p choices_alt w h # post)"
    using assms(1) by (simp add: extract_choices_def)
  also have "\<dots> = image_choices (ImageItem s p choices_alt w h # post)"
    using assms(2) by (rule skip_fruitless)
  also have "\<dots> = two_choices"
    using choices_alt_marked two_choices_not_empty
    by (simp add: choices_alt_choices Let_def)
  finally show ?thesis by (simp add: two_choices_def)
qed

theorem c8_image_alt_choices_witness:
  "first_matches answer_patterns
     (problem_text ([] @ ImageItem ''/latex.png'' ''images/problem_1_problem_0.png'' choices_alt None None # [])) = None \<and>
   image_choices [] = [] \<and>
   extract_choices ([] @ ImageItem ''/latex.png'' ''images/problem_1_problem_0.png'' choices_alt None None # []) =
     [\<lparr>letter = ''A'', choice_text = ''3'', source = Some ''image_alt''\<rparr>,
      \<lparr>letter = ''B'', choice_text = ''4'', source = Some ''image_alt''\<rparr>] \<and>
   first_matches answer_patterns
     (problem_text ([TextItem ''How many?'', image_with_alt later_letters_alt, image_with_alt bare_marker_alt]
        @ ImageItem ''/latex.png'' ''images/problem_1_problem_0.png'' choices_alt None None
        # [image_with_alt later_letters_alt])) = None \<and>
   has_choice_marker bare_marker_alt \<and>
   image_choices [TextItem ''How many?'', image_with_alt later_letters_alt, image_with_alt bare_marker_alt] = [] \<and>
   extract_choices ([TextItem ''How many?'', image_with_alt later_letters_alt, image_with_alt bare_marker_alt]
        @ ImageItem ''/latex.png'' ''images/problem_1_problem_0.png'' choices_alt None None
        # [image_with_alt later_letters_alt]) =
     [\<lparr>letter = ''A'', choice_text = ''3'', source = Some ''image_alt''\<rparr>,
      \<lparr>letter = ''B'', choice_text = ''4'', source = Some ''image_alt''\<rparr>]"
proof -
  have g1: "first_matches answer_patterns
     (problem_text ([] @ ImageItem ''/latex.png'' ''images/problem_1_problem_0.png'' choices_alt None None # [])) = None"
    by code_simp
  have g2: "image_choices [] = []" by simp
  have h1: "first_matches answer_patterns
     (problem_text ([TextItem ''How many?'', image_with_alt later_letters_alt, image_with_alt bare_marker_alt]
        @ ImageItem ''/latex.png'' ''images/problem_1_problem_0.png'' choices_alt None None
        # [image_with_alt later_letters_alt])) = None"
    by code_simp
  have m: "has_choice_marker bare_marker_alt" by code_simp
  have h2: "image_choices [TextItem ''How many?'', image_with_alt later_letters_alt, image_with_alt bare_marker_alt] = []"
    by code_simp
  from c8_image_alt_choices[OF g1 g2] c8_image_alt_choices[OF h1 h2] g1 g2 h1 m h2 show ?thesis
    by blast
qed

text \<open>
  C10. An image whose alt text contains neither \<^verbatim>\<open>\textbf{(A)}\<close> nor \<^verbatim>\<open>textbf{(A)}\<close>
  yields no choices: the scan of the fallback passes over it, whatever other letter
  markers the alt text holds.
\<close>

theorem c10_marker_gate:
  assumes "\<not> contains a (bsl # ''textbf{(A)}'')"
    and "\<not> contains a ''textbf{(A)}''"
  shows "image_choices (ImageItem s p a w h # items) = image_choices items"
  using assms by (simp add: has_choice_marker_def)

theorem c10_marker_gate_witness:
  "\<not> contains later_letters_alt (bsl # ''textbf{(A)}'') \<and>
   \<not> contains later_letters_alt ''textbf{(A)}'' \<and>
   contains later_letters_alt (bsl # ''textbf{(B)}'') \<and>
   image_choices [ImageItem ''/latex.png'' ''images/problem_1_problem_0.png'' later_letters_alt None None] = [] \<and>
   image_choices (ImageItem ''/latex.png'' ''images/problem_1_problem_0.png'' later_letters_alt None None
                    # [image_with_alt choices_alt]) = image_choices [image_with_alt choices_alt]"
proof -
  have h1: "\<not> contains later_letters_alt (bsl # ''textbf{(A)}'')" by code_simp
  have h2: "\<not> contains later_letters_alt ''textbf{(A)}''" by code_simp
  have b: "contains later_letters_alt (bsl # ''textbf{(B)}'')" by code_simp
  have e: "image_choices [ImageItem ''/latex.png'' ''images/problem_1_problem_0.png'' later_letters_alt None None] = []"
    using c10_marker_gate[OF h1 h2, of "''/latex.png''" "''images/problem_1_problem_0.png''" None None "[]"]
    by simp
  from c10_marker_gate[OF h1 h2, of "''/latex.png''" "''images/problem_1_problem_0.png''" None None
         "[image_with_alt choices_alt]"] h1 h2 b e
  show ?thesis by blast
qed


end
